theory Spec2Isabelle
  imports
    Complex_Main
    "HOL-Library.Multiset"
    "HOL-Library.Char_ord"
    "HOL-Library.List_Lexorder"
begin

section \<open>The document store\<close>

text \<open>
  A value held in a Firestore document, as the Python client hands it to \<^verbatim>\<open>app.py\<close>:
  a \<^verbatim>\<open>str\<close>, an \<^verbatim>\<open>int\<close>, or any other value (float, bool, null, timestamp, array,
  map), which the script never inspects and which is therefore left abstract. Text is the
  list of its bytes in UTF-8, whose lexicographic order is the order of the code points by
  which Python compares and sorts \<^verbatim>\<open>str\<close> values.
\<close>

datatype 'o pyval = PStr string | PInt int | POther 'o

text \<open>
  A document of the collection \<^verbatim>\<open>students\<close>: its identifier (\<^verbatim>\<open>d.id\<close>) and its
  attributes (\<^verbatim>\<open>d.to_dict()\<close>). The collection is the list of its documents in the order
  in which \<^verbatim>\<open>stream()\<close> yields them.
\<close>

record 'o document =
  doc_id :: string
  doc_data :: "string \<rightharpoonup> 'o pyval"

type_synonym 'o store = "'o document list"

text \<open>
  \<^verbatim>\<open>doc_ref.set(data)\<close>: the document with that identifier is replaced when it exists
  and created otherwise.
\<close>

fun doc_set :: "string \<Rightarrow> (string \<rightharpoonup> 'o pyval) \<Rightarrow> 'o store \<Rightarrow> 'o store" where
  "doc_set i data [] = [\<lparr>doc_id = i, doc_data = data\<rparr>]"
| "doc_set i data (d # ds) =
     (if doc_id d = i then \<lparr>doc_id = i, doc_data = data\<rparr> # ds else d # doc_set i data ds)"

text \<open>
  \<^verbatim>\<open>add_mark\<close> (lines 50-58). \<^verbatim>\<open>db.collection("students").document()\<close> asks the store
  for a reference with an automatically generated identifier; the generator belongs to the
  store, so the identifier it returns is the first argument here.
\<close>

definition add_mark ::
  "string \<Rightarrow> string \<Rightarrow> string \<Rightarrow> string \<Rightarrow> int \<Rightarrow> string \<Rightarrow> 'o store \<Rightarrow> 'o store" where
  "add_mark auto_id name student_id subject marks date_str db =
     doc_set auto_id
       [''name'' \<mapsto> PStr name,
        ''student_id'' \<mapsto> PStr student_id,
        ''subject'' \<mapsto> PStr subject,
        ''marks'' \<mapsto> PInt marks,
        ''date'' \<mapsto> PStr date_str] db"

text \<open>\<^verbatim>\<open>data.get(key, default)\<close> of a Python dict.\<close>

definition dict_get :: "(string \<rightharpoonup> 'v) \<Rightarrow> string \<Rightarrow> 'v \<Rightarrow> 'v" where
  "dict_get data k dflt = (case data k of None \<Rightarrow> dflt | Some v \<Rightarrow> v)"

text \<open>
  A row built by \<^verbatim>\<open>fetch_all\<close> is a Python dict literal; it is kept as the list of its
  (key, value) pairs in insertion order, which is also the column order of the frame.
\<close>

type_synonym 'o row = "(string \<times> 'o pyval) list"

definition row_of :: "'o document \<Rightarrow> 'o row" where
  "row_of d =
     [(''id'', PStr (doc_id d)),
      (''name'', dict_get (doc_data d) ''name'' (PStr '''')),
      (''student_id'', dict_get (doc_data d) ''student_id'' (PStr '''')),
      (''subject'', dict_get (doc_data d) ''subject'' (PStr '''')),
      (''marks'', dict_get (doc_data d) ''marks'' (PInt 0)),
      (''date'', dict_get (doc_data d) ''date'' (PStr ''''))]"

text \<open>\<^verbatim>\<open>fetch_all\<close> (lines 60-73): the loop over the stream appends one row per document.\<close>

fun fetch_rows :: "'o row list \<Rightarrow> 'o store \<Rightarrow> 'o row list" where
  "fetch_rows rows [] = rows"
| "fetch_rows rows (d # docs) = fetch_rows (rows @ [row_of d]) docs"

definition fetch_all :: "'o store \<Rightarrow> 'o row list" where
  "fetch_all db = fetch_rows [] db"

subsection \<open>The entry form\<close>

text \<open>
  The value of \<^verbatim>\<open>st.date_input\<close> is a \<^verbatim>\<open>datetime.date\<close>; \<^verbatim>\<open>isoformat()\<close> prints it
  as \<^verbatim>\<open>YYYY-MM-DD\<close>, each part in decimal and padded with zeros to its width
  (\<^verbatim>\<open>%04d-%02d-%02d\<close>).
\<close>

record pydate =
  year :: nat
  month :: nat
  day :: nat

definition digit_char :: "nat \<Rightarrow> char" where
  "digit_char n = char_of (48 + n)"

fun digits_of :: "nat \<Rightarrow> string" where
  "digits_of n = (if n < 10 then [digit_char n] else digits_of (n div 10) @ [digit_char (n mod 10)])"

declare digits_of.simps [simp del]

definition zero_pad :: "nat \<Rightarrow> nat \<Rightarrow> string" where
  "zero_pad w n = replicate (w - length (digits_of n)) CHR ''0'' @ digits_of n"

definition isoformat :: "pydate \<Rightarrow> string" where
  "isoformat d = zero_pad 4 (year d) @ ''-'' @ zero_pad 2 (month d) @ ''-'' @ zero_pad 2 (day d)"

text \<open>What the page shows through \<^verbatim>\<open>st.info\<close>, \<^verbatim>\<open>st.warning\<close>, \<^verbatim>\<open>st.success\<close> and \<^verbatim>\<open>st.error\<close>.\<close>

datatype notice = Info string | Warning string | Success string | Error string

text \<open>
  The body of \<^verbatim>\<open>if submitted:\<close> (lines 86-92). \<^verbatim>\<open>not name\<close> holds exactly of the empty
  string; \<^verbatim>\<open>int(marks)\<close> is the identity on the integers that the number input returns.
\<close>

definition entry_form_submit ::
  "string \<Rightarrow> string \<Rightarrow> string \<Rightarrow> string \<Rightarrow> int \<Rightarrow> pydate \<Rightarrow> 'o store \<Rightarrow> 'o store \<times> notice" where
  "entry_form_submit auto_id name student_id subject marks date db =
     (let date_str = isoformat date in
      if name = [] \<or> subject = [] then
        (db, Warning ''Please enter at least Student Name and Subject.'')
      else
        (add_mark auto_id name student_id subject marks date_str db,
         Success ''Record added successfully!''))"

section \<open>The frame and the dashboard\<close>

text \<open>
  \<^verbatim>\<open>pd.DataFrame(rows)\<close>. The analysis below is stated for frames whose cells have the types
  of the data model (text for id, name, student_id, subject and date, an integer for marks),
  which is the shape of every document that \<^verbatim>\<open>add_mark\<close> writes. \<^verbatim>\<open>data_frame\<close> reads the
  rows of \<^verbatim>\<open>fetch_all\<close> into such a frame and is \<open>None\<close> when a cell has another type.
\<close>

record mark_record =
  rec_id :: string
  name :: string
  student_id :: string
  subject :: string
  marks :: int
  date :: string

definition str_cell :: "'o row \<Rightarrow> string \<Rightarrow> string option" where
  "str_cell r k = (case map_of r k of Some (PStr s) \<Rightarrow> Some s | _ \<Rightarrow> None)"

definition int_cell :: "'o row \<Rightarrow> string \<Rightarrow> int option" where
  "int_cell r k = (case map_of r k of Some (PInt i) \<Rightarrow> Some i | _ \<Rightarrow> None)"

definition typed_row :: "'o row \<Rightarrow> mark_record option" where
  "typed_row r =
     (case (str_cell r ''id'', str_cell r ''name'', str_cell r ''student_id'',
            str_cell r ''subject'', int_cell r ''marks'', str_cell r ''date'') of
        (Some i, Some n, Some s, Some sub, Some m, Some d) \<Rightarrow>
          Some \<lparr>rec_id = i, name = n, student_id = s, subject = sub, marks = m, date = d\<rparr>
      | _ \<Rightarrow> None)"

fun data_frame :: "'o row list \<Rightarrow> mark_record list option" where
  "data_frame [] = Some []"
| "data_frame (r # rs) =
     (case typed_row r of
        None \<Rightarrow> None
      | Some x \<Rightarrow> (case data_frame rs of None \<Rightarrow> None | Some xs \<Rightarrow> Some (x # xs)))"

subsection \<open>Filters\<close>

text \<open>
  Lines 118-122. The two selections are the strings returned by the select boxes, with
  \<^verbatim>\<open>"All"\<close> standing for no filter.
\<close>

definition apply_filters :: "mark_record list \<Rightarrow> string \<Rightarrow> string \<Rightarrow> mark_record list" where
  "apply_filters df subj_filter student_filter =
     (let filtered = df;
          filtered = (if subj_filter \<noteq> ''All''
                      then filter (\<lambda>r. subject r = subj_filter) filtered else filtered);
          filtered = (if student_filter \<noteq> ''All''
                      then filter (\<lambda>r. name r = student_filter) filtered else filtered)
      in filtered)"

subsection \<open>Aggregation by subject\<close>

text \<open>
  The four entries of the select box (\<^verbatim>\<open>"Average"\<close>, \<^verbatim>\<open>"Max"\<close>, \<^verbatim>\<open>"Min"\<close>,
  \<^verbatim>\<open>"Count"\<close>).
\<close>

datatype agg_choice = Average | Max_agg | Min_agg | Count

text \<open>
  A value of the resulting series. \<^verbatim>\<open>mean()\<close> yields a float column, the other three
  integer columns; a reduction of an empty group is NaN in pandas. The mean is modelled by its
  exact value as a rational number: binary64 rounding error is not represented.
\<close>

datatype series_val = IntVal int | FloatVal rat | NaN

text \<open>
  \<^verbatim>\<open>groupby("subject")["marks"]\<close>: one group per distinct subject, the keys in sorted order,
  each group holding the marks of its rows in frame order.
\<close>

definition groupby_subject :: "mark_record list \<Rightarrow> (string \<times> int list) list" where
  "groupby_subject df =
     map (\<lambda>k. (k, map marks (filter (\<lambda>r. subject r = k) df))) (sort (remdups (map subject df)))"

fun mean :: "int list \<Rightarrow> series_val" where
  "mean [] = NaN"
| "mean (m # ms) = FloatVal (of_int (sum_list (m # ms)) / of_nat (length (m # ms)))"

fun max_marks :: "int list \<Rightarrow> series_val" where
  "max_marks [] = NaN"
| "max_marks (m # ms) = IntVal (fold max ms m)"

fun min_marks :: "int list \<Rightarrow> series_val" where
  "min_marks [] = NaN"
| "min_marks (m # ms) = IntVal (fold min ms m)"

definition count_marks :: "int list \<Rightarrow> series_val" where
  "count_marks ms = IntVal (int (length ms))"

text \<open>
  \<^verbatim>\<open>round(2)\<close>: numpy rounds to the nearest multiple of 0.01 and a tie to the even one;
  integer columns are returned as they are.
\<close>

definition round_half_even :: "rat \<Rightarrow> int" where
  "round_half_even x =
     (let f = \<lfloor>x\<rfloor>; d = x - of_int f in
      if d < 1 / 2 then f
      else if 1 / 2 < d then f + 1
      else if even f then f else f + 1)"

fun round2 :: "series_val \<Rightarrow> series_val" where
  "round2 (FloatVal x) = FloatVal (of_int (round_half_even (x * 100)) / 100)"
| "round2 v = v"

definition agg_map :: "agg_choice \<Rightarrow> mark_record list \<Rightarrow> (string \<times> series_val) list" where
  "agg_map choice filtered =
     map (\<lambda>(k, ms). (k, case choice of
                           Average \<Rightarrow> mean ms
                         | Max_agg \<Rightarrow> max_marks ms
                         | Min_agg \<Rightarrow> min_marks ms
                         | Count \<Rightarrow> count_marks ms))
       (groupby_subject filtered)"

definition result_series :: "agg_choice \<Rightarrow> mark_record list \<Rightarrow> (string \<times> series_val) list" where
  "result_series choice filtered = map (\<lambda>(k, v). (k, round2 v)) (agg_map choice filtered)"

subsection \<open>Trend of one student\<close>

text \<open>
  Lines 150-153. \<^verbatim>\<open>sort_values("date")\<close> orders the rows by the date column, which holds
  strings, so the order is that of the strings. pandas does not promise an order among rows
  with equal dates; the model keeps them in frame order, and the properties proved below do
  not depend on that choice.

  \<^verbatim>\<open>pd.to_datetime\<close> is a pandas function and is the first argument: it reads one date
  string into a timestamp, which is a calendar date or the missing value NaT, and \<open>None\<close>
  stands for the exception it raises.
\<close>

datatype timestamp = Timestamp pydate | NaT

datatype failure = DateParseError

fun parse_column ::
  "(string \<Rightarrow> timestamp option) \<Rightarrow> string list \<Rightarrow> timestamp list option" where
  "parse_column to_datetime [] = Some []"
| "parse_column to_datetime (s # ss) =
     (case to_datetime s of
        None \<Rightarrow> None
      | Some d \<Rightarrow> (case parse_column to_datetime ss of None \<Rightarrow> None | Some ds \<Rightarrow> Some (d # ds)))"

definition trend_block ::
  "(string \<Rightarrow> timestamp option) \<Rightarrow> mark_record list \<Rightarrow> failure + (timestamp \<times> int) list" where
  "trend_block to_datetime filtered =
     (let trend = sort_key date filtered in
      case parse_column to_datetime (map date trend) of
        None \<Rightarrow> Inl DateParseError
      | Some ds \<Rightarrow> Inr (zip ds (map marks trend)))"

subsection \<open>The page\<close>

text \<open>
  What the main panel shows (lines 99-157): a notice, or the aggregation table, the bar chart
  when charts are switched on, and the trend line when a student is selected. The table of
  all records (line 105) and the entries offered by the select boxes are not part of the
  model; the two filter values range over all strings.
\<close>

datatype panel =
  Notice notice
| Charts "(string \<times> series_val) list" "(string \<times> series_val) list option"
    "(timestamp \<times> int) list option"

definition dashboard ::
  "(string \<Rightarrow> timestamp option) \<Rightarrow> mark_record list \<Rightarrow> string \<Rightarrow> string \<Rightarrow> agg_choice \<Rightarrow> bool
     \<Rightarrow> failure + panel" where
  "dashboard to_datetime df subj_filter student_filter choice show_chart =
     (if df = [] then
        Inr (Notice (Info ''No records yet. Add student marks from the left panel.''))
      else
        let filtered = apply_filters df subj_filter student_filter in
        if filtered = [] then Inr (Notice (Warning ''No data after applying filters.''))
        else
          let series = result_series choice filtered;
              bar = (if show_chart then Some series else None)
          in if student_filter \<noteq> ''All'' then
               (case trend_block to_datetime filtered of
                  Inl e \<Rightarrow> Inl e
                | Inr trend \<Rightarrow> Inr (Charts series bar (Some trend)))
             else Inr (Charts series bar None))"

section \<open>Export\<close>

text \<open>
  \<^verbatim>\<open>df.to_csv(index=False)\<close> (line 164): a header line with the column names, then one line
  per row, the fields separated by commas and each line ended by a line feed. pandas writes
  through Python's \<^verbatim>\<open>csv\<close> module with minimal quoting: a field that contains a comma, a
  double quote or a line break is put between double quotes, every double quote inside it
  doubled. An integer is written as \<^verbatim>\<open>str\<close> prints it. The line ending is that of a POSIX
  system (\<^verbatim>\<open>os.linesep\<close>), and a carriage return counts as a line break, as in Python 3.13.
\<close>

definition columns :: "string list" where
  "columns = [''id'', ''name'', ''student_id'', ''subject'', ''marks'', ''date'']"

definition str_int :: "int \<Rightarrow> string" where
  "str_int i = (if i < 0 then CHR ''-'' # digits_of (nat (- i)) else digits_of (nat i))"

definition special :: "char \<Rightarrow> bool" where
  "special c \<longleftrightarrow> c = CHR '','' \<or> c = CHR 0x22 \<or> c = CHR 0x0A \<or> c = CHR 0x0D"

fun double_quotes :: "string \<Rightarrow> string" where
  "double_quotes [] = []"
| "double_quotes (c # cs) = (if c = CHR 0x22 then c # c # double_quotes cs else c # double_quotes cs)"

definition csv_field :: "string \<Rightarrow> string" where
  "csv_field s = (if list_ex special s then CHR 0x22 # double_quotes s @ [CHR 0x22] else s)"

fun csv_join :: "string list \<Rightarrow> string" where
  "csv_join [] = []"
| "csv_join [f] = f"
| "csv_join (f # g # fs) = f @ CHR '','' # csv_join (g # fs)"

definition csv_line :: "string list \<Rightarrow> string" where
  "csv_line vals = csv_join (map csv_field vals) @ [CHR 0x0A]"

definition cells :: "mark_record \<Rightarrow> string list" where
  "cells r = [rec_id r, name r, student_id r, subject r, str_int (marks r), date r]"

text \<open>
  The columns of a frame are the keys of the rows it was built from, so a frame built from no
  rows has none. Line 163 keeps \<^verbatim>\<open>to_csv\<close> from being called on such a frame.
\<close>

definition frame_columns :: "mark_record list \<Rightarrow> string list" where
  "frame_columns df = (if df = [] then [] else columns)"

definition to_csv :: "mark_record list \<Rightarrow> string" where
  "to_csv df = concat (map csv_line (frame_columns df # map cells df))"

text \<open>
  Lines 163-165: the download button with its data, file name and MIME type, or nothing when
  the frame is empty.
\<close>

definition export :: "mark_record list \<Rightarrow> (string \<times> string \<times> string) option" where
  "export df = (if df \<noteq> [] then Some (to_csv df, ''student_marks.csv'', ''text/csv'') else None)"

subsection \<open>Reading the file back\<close>

text \<open>
  Modelled from the spec: the repository only writes the CSV file; the re-parsing step of the
  round-trip property is not part of it. \<^verbatim>\<open>read_csv\<close> is a reader for comma-separated values
  in the usual sense (RFC 4180): a field that starts with a double quote runs to its closing
  quote, a doubled quote inside it stands for one quote, a line feed outside quotes ends the
  row. The first row must be the header; the marks column is read as a decimal integer and
  the other columns as text.
\<close>

datatype csv_mode = Field_start | Plain | Quoted | Quote_seen

fun read_rows ::
  "csv_mode \<Rightarrow> string \<Rightarrow> string list \<Rightarrow> string list list \<Rightarrow> string \<Rightarrow> string list list" where
  "read_rows mode fld row rows [] =
     (if mode = Field_start \<and> row = [] then rev rows else rev (rev (rev fld # row) # rows))"
| "read_rows mode fld row rows (c # cs) =
     (if mode = Quoted then
        (if c = CHR 0x22 then read_rows Quote_seen fld row rows cs
         else read_rows Quoted (c # fld) row rows cs)
      else if c = CHR 0x22 \<and> mode = Field_start then read_rows Quoted fld row rows cs
      else if c = CHR 0x22 \<and> mode = Quote_seen then read_rows Quoted (c # fld) row rows cs
      else if c = CHR '','' then read_rows Field_start [] (rev fld # row) rows cs
      else if c = CHR 0x0A then read_rows Field_start [] [] (rev (rev fld # row) # rows) cs
      else read_rows Plain (c # fld) row rows cs)"

definition is_digit :: "char \<Rightarrow> bool" where
  "is_digit c \<longleftrightarrow> CHR ''0'' \<le> c \<and> c \<le> CHR ''9''"

definition digit_val :: "char \<Rightarrow> nat" where
  "digit_val c = of_char c - 48"

fun digits_val :: "nat \<Rightarrow> string \<Rightarrow> nat option" where
  "digits_val acc [] = Some acc"
| "digits_val acc (c # cs) = (if is_digit c then digits_val (10 * acc + digit_val c) cs else None)"

definition parse_nat :: "string \<Rightarrow> nat option" where
  "parse_nat s = (if s = [] then None else digits_val 0 s)"

definition parse_int :: "string \<Rightarrow> int option" where
  "parse_int s =
     (case s of
        [] \<Rightarrow> None
      | c # cs \<Rightarrow> if c = CHR ''-'' then map_option (\<lambda>n. - int n) (parse_nat cs)
                  else map_option int (parse_nat s))"

fun record_of_cells :: "string list \<Rightarrow> mark_record option" where
  "record_of_cells [i, n, s, sub, m, d] =
     map_option
       (\<lambda>mk. \<lparr>rec_id = i, name = n, student_id = s, subject = sub, marks = mk, date = d\<rparr>)
       (parse_int m)"
| "record_of_cells _ = None"

fun records_of_rows :: "string list list \<Rightarrow> mark_record list option" where
  "records_of_rows [] = Some []"
| "records_of_rows (r # rs) =
     (case record_of_cells r of
        None \<Rightarrow> None
      | Some x \<Rightarrow> (case records_of_rows rs of None \<Rightarrow> None | Some xs \<Rightarrow> Some (x # xs)))"

definition read_csv :: "string \<Rightarrow> mark_record list option" where
  "read_csv csv =
     (case read_rows Field_start [] [] [] csv of
        [] \<Rightarrow> None
      | header # rows \<Rightarrow> if header = columns then records_of_rows rows else None)"

section \<open>Dates as text and as calendar dates\<close>

text \<open>
  The calendar date that a string of the form \<^verbatim>\<open>YYYY-MM-DD\<close> denotes, and the
  chronological order of calendar dates. They are used to state that the order of the date
  strings is the order in time.
\<close>

fun iso_date :: "string \<Rightarrow> pydate option" where
  "iso_date [y1, y2, y3, y4, h1, m1, m2, h2, d1, d2] =
     (if list_all is_digit [y1, y2, y3, y4, m1, m2, d1, d2] \<and> h1 = CHR ''-'' \<and> h2 = CHR ''-''
      then Some \<lparr>year = 1000 * digit_val y1 + 100 * digit_val y2 + 10 * digit_val y3 + digit_val y4,
                 month = 10 * digit_val m1 + digit_val m2,
                 day = 10 * digit_val d1 + digit_val d2\<rparr>
      else None)"
| "iso_date _ = None"


text \<open>
  A stand-in for \<^verbatim>\<open>pd.to_datetime\<close> in the examples: it reads ISO date strings, reads
  empty text as NaT, as pandas does, and raises on everything else.
\<close>

definition to_datetime_iso :: "string \<Rightarrow> timestamp option" where
  "to_datetime_iso s = (if s = [] then Some NaT else map_option Timestamp (iso_date s))"

section \<open>Start-up\<close>

text \<open>
  \<^verbatim>\<open>init_firestore\<close> (lines 22-43). The surroundings are arguments: the process environment,
  the steps of the \<^verbatim>\<open>try\<close> block taken together (base64 decoding, UTF-8 decoding, JSON
  parsing and building the certificate, \<open>None\<close> when any of them raises), whether a path
  exists, and building the certificate from the key file (\<open>None\<close> when that raises, which the
  function does not catch). The result is the credential with which the client is opened.
  \<^verbatim>\<open>st.error(msg); st.stop()\<close> shows the message and ends the run.
\<close>

datatype startup_failure = Stopped notice | Uncaught

definition init_firestore ::
  "(string \<rightharpoonup> string) \<Rightarrow> (string \<Rightarrow> 'c option) \<Rightarrow> (string \<Rightarrow> bool) \<Rightarrow> (string \<Rightarrow> 'c option)
     \<Rightarrow> startup_failure + 'c" where
  "init_firestore environ certificate_of_blob path_exists certificate_of_file =
     (case environ ''FIREBASE_CREDENTIALS'' of
        Some b64 \<Rightarrow>
          (case certificate_of_blob b64 of
             None \<Rightarrow> Inl (Stopped (Error
               ''Couldn't load Firebase credentials from FIREBASE_CREDENTIALS env var.''))
           | Some cred \<Rightarrow> Inr cred)
      | None \<Rightarrow>
          (let key_path = ''firebase_key.json'' in
           if \<not> path_exists key_path then
             Inl (Stopped (Error (''firebase_key.json not found. Place your Firebase service ''
               @ ''account JSON file in the project folder (or set FIREBASE_CREDENTIALS env var).'')))
           else
             (case certificate_of_file key_path of
                None \<Rightarrow> Inl Uncaught
              | Some cred \<Rightarrow> Inr cred)))"

section \<open>The example of the specification\<close>


section \<open>Reading the page, and the claim about the trend in its own words\<close>




text \<open>
  A frame whose text holds a comma, a double quote and a line feed, whose optional student id
  is empty in one row and has leading zeros in the other, and whose marks are negative in one
  row.
\<close>

definition awkward_records :: "mark_record list" where
  "awkward_records =
     [\<lparr>rec_id = ''k1'', name = ''Doe, Jane'', student_id = '''',
       subject = [CHR ''a'', CHR 0x22, CHR ''b''], marks = -5, date = ''2024-01-01''\<rparr>,
      \<lparr>rec_id = ''k2'', name = [CHR ''x'', CHR 0x0A, CHR ''y''], student_id = ''007'',
       subject = ''Math'', marks = 100, date = ''''\<rparr>]"

section \<open>Properties of the store operations\<close>

lemma fetch_rows_append: "fetch_rows rows db = rows @ map row_of db"
  by (induction db arbitrary: rows) simp_all

lemma fetch_all_map: "fetch_all db = map row_of db"
  by (simp add: fetch_all_def fetch_rows_append)

lemma doc_set_fresh:
  "i \<notin> doc_id ` set db \<Longrightarrow> doc_set i data db = db @ [\<lparr>doc_id = i, doc_data = data\<rparr>]"
  by (induction db) auto

lemma row_of_keys:
  "map fst (row_of d) = [''id'', ''name'', ''student_id'', ''subject'', ''marks'', ''date'']"
  by (simp add: row_of_def)

lemma map_of_row_of:
  "map_of (row_of d) k =
     (if k = ''id'' then Some (PStr (doc_id d))
      else if k = ''name'' \<or> k = ''student_id'' \<or> k = ''subject'' \<or> k = ''date''
        then Some (case doc_data d k of None \<Rightarrow> PStr '''' | Some v \<Rightarrow> v)
      else if k = ''marks'' then Some (case doc_data d k of None \<Rightarrow> PInt 0 | Some v \<Rightarrow> v)
      else None)"
  by (simp add: row_of_def dict_get_def)

text \<open>
  C7. \<^verbatim>\<open>fetch_all\<close> returns one row per stored document, in the order of the stream and with
  none left out. In the row of a document the identifier is the document's; \<^verbatim>\<open>name\<close>,
  \<^verbatim>\<open>student_id\<close>, \<^verbatim>\<open>subject\<close> and \<^verbatim>\<open>date\<close> hold the document's attribute, or the
  empty string when the document has none; \<^verbatim>\<open>marks\<close> holds the attribute, or zero.
\<close>

theorem fetch_all_one_row_per_document:
  "length (fetch_all db) = length db \<and>
   (\<forall>i < length db. \<forall>k.
      map_of (fetch_all db ! i) k =
        (if k = ''id'' then Some (PStr (doc_id (db ! i)))
         else if k = ''name'' \<or> k = ''student_id'' \<or> k = ''subject'' \<or> k = ''date''
           then Some (case doc_data (db ! i) k of None \<Rightarrow> PStr '''' | Some v \<Rightarrow> v)
         else if k = ''marks''
           then Some (case doc_data (db ! i) k of None \<Rightarrow> PInt 0 | Some v \<Rightarrow> v)
         else None))"
  by (simp add: fetch_all_map map_of_row_of)

theorem fetch_all_one_row_per_document_witness:
  "map_of (fetch_all [\<lparr>doc_id = ''d1'', doc_data = [''name'' \<mapsto> PStr ''Alice'']\<rparr>,
                      \<lparr>doc_id = ''d2'', doc_data = [''marks'' \<mapsto> (PInt 7 :: unit pyval)]\<rparr>] ! 0) ''marks''
     = Some (PInt 0) \<and>
   map_of (fetch_all [\<lparr>doc_id = ''d1'', doc_data = [''name'' \<mapsto> PStr ''Alice'']\<rparr>,
                      \<lparr>doc_id = ''d2'', doc_data = [''marks'' \<mapsto> (PInt 7 :: unit pyval)]\<rparr>] ! 1) ''date''
     = Some (PStr '''')"
  using fetch_all_one_row_per_document
    [of "[\<lparr>doc_id = ''d1'', doc_data = [''name'' \<mapsto> PStr ''Alice'']\<rparr>,
          \<lparr>doc_id = ''d2'', doc_data = [''marks'' \<mapsto> (PInt 7 :: unit pyval)]\<rparr>]"]
  by simp

text \<open>
  C10. Every row of \<^verbatim>\<open>fetch_all\<close> has exactly the six attributes id, name, student_id,
  subject, marks and date, whatever attributes the stored document carries; other attributes
  of the document do not reach the frame.
\<close>

theorem fetch_all_six_columns:
  "\<forall>r \<in> set (fetch_all db).
     map fst r = [''id'', ''name'', ''student_id'', ''subject'', ''marks'', ''date'']"
  by (simp add: fetch_all_map row_of_keys)

theorem fetch_all_six_columns_witness:
  "map fst (hd (fetch_all [\<lparr>doc_id = ''d1'',
       doc_data = [''name'' \<mapsto> PStr ''Alice'', ''grade'' \<mapsto> (POther () :: unit pyval)]\<rparr>]))
     = [''id'', ''name'', ''student_id'', ''subject'', ''marks'', ''date'']"
  using fetch_all_six_columns
    [of "[\<lparr>doc_id = ''d1'',
       doc_data = [''name'' \<mapsto> PStr ''Alice'', ''grade'' \<mapsto> (POther () :: unit pyval)]\<rparr>]"]
  by (simp add: fetch_all_map)

text \<open>
  C1. A submission with a non-empty name and a non-empty subject, under an identifier that the
  store has not used before, is answered with the success notice, and a full read afterwards
  returns the rows read before followed by exactly one new row, which holds the new identifier
  and the submitted name, student id, subject, marks and ISO date; no row read before carries
  that identifier. The marks need not be restricted to the range of the input widget.
\<close>

theorem submit_adds_one_record:
  assumes "nm \<noteq> []" and "subj \<noteq> []" and "auto_id \<notin> doc_id ` set db"
  shows "entry_form_submit auto_id nm sid subj m d db =
           (add_mark auto_id nm sid subj m (isoformat d) db, Success ''Record added successfully!'') \<and>
         fetch_all (add_mark auto_id nm sid subj m (isoformat d) db) =
           fetch_all db @
             [[(''id'', PStr auto_id), (''name'', PStr nm), (''student_id'', PStr sid),
               (''subject'', PStr subj), (''marks'', PInt m), (''date'', PStr (isoformat d))]] \<and>
         (\<forall>r \<in> set (fetch_all db). map_of r ''id'' \<noteq> Some (PStr auto_id))"
proof -
  have "entry_form_submit auto_id nm sid subj m d db =
          (add_mark auto_id nm sid subj m (isoformat d) db, Success ''Record added successfully!'')"
    using assms(1,2) by (simp add: entry_form_submit_def)
  moreover have "fetch_all (add_mark auto_id nm sid subj m (isoformat d) db) =
           fetch_all db @
             [[(''id'', PStr auto_id), (''name'', PStr nm), (''student_id'', PStr sid),
               (''subject'', PStr subj), (''marks'', PInt m), (''date'', PStr (isoformat d))]]"
    using assms(3) by (simp add: add_mark_def doc_set_fresh fetch_all_map row_of_def dict_get_def)
  moreover have "\<forall>r \<in> set (fetch_all db). map_of r ''id'' \<noteq> Some (PStr auto_id)"
    using assms(3) by (auto simp: fetch_all_map map_of_row_of)
  ultimately show ?thesis by blast
qed

theorem submit_adds_one_record_witness:
  "fetch_all (fst (entry_form_submit ''k9'' ''Alice'' '''' ''Math'' 80 \<lparr>year = 2024, month = 3, day = 15\<rparr>
      [\<lparr>doc_id = ''k1'', doc_data = [''name'' \<mapsto> (PStr ''Bob'' :: unit pyval)]\<rparr>]))
   = [[(''id'', PStr ''k1''), (''name'', PStr ''Bob''), (''student_id'', PStr ''''),
       (''subject'', PStr ''''), (''marks'', PInt 0), (''date'', PStr '''')],
      [(''id'', PStr ''k9''), (''name'', PStr ''Alice''), (''student_id'', PStr ''''),
       (''subject'', PStr ''Math''), (''marks'', PInt 80), (''date'', PStr ''2024-03-15'')]]"
proof -
  have fresh: "''k9'' \<notin> doc_id ` set [\<lparr>doc_id = ''k1'', doc_data = [''name'' \<mapsto> (PStr ''Bob'' :: unit pyval)]\<rparr>]"
    by simp
  have iso: "isoformat \<lparr>year = 2024, month = 3, day = 15\<rparr> = ''2024-03-15''"
    by code_simp
  show ?thesis
    using submit_adds_one_record [of "''Alice''" "''Math''" "''k9''" _ "''''" 80
        "\<lparr>year = 2024, month = 3, day = 15\<rparr>", OF _ _ fresh]
    by (simp add: iso fetch_all_map row_of_def dict_get_def)
qed

text \<open>
  C3. A submission whose name or subject is empty leaves the store as it was and is answered
  with the warning.
\<close>

theorem submit_empty_field_writes_nothing:
  "nm = [] \<or> subj = [] \<Longrightarrow>
   entry_form_submit auto_id nm sid subj m d db =
     (db, Warning ''Please enter at least Student Name and Subject.'')"
  by (auto simp: entry_form_submit_def)

theorem submit_empty_field_writes_nothing_witness:
  "fetch_all (fst (entry_form_submit ''k9'' '''' ''s1'' ''Math'' 80 \<lparr>year = 2024, month = 3, day = 15\<rparr>
      ([] :: unit store))) = []"
  using submit_empty_field_writes_nothing [of "''''" "''Math''" "''k9''" "''s1''" 80
        "\<lparr>year = 2024, month = 3, day = 15\<rparr>" "[] :: unit store"]
  by (simp add: fetch_all_def)

text \<open>
  What \<^verbatim>\<open>add_mark\<close> writes reads back as a row of the typed frame: the frame after a write is
  the frame before it with the new record at the end.
\<close>

lemma data_frame_append:
  "data_frame (rs @ [r]) =
     (case data_frame rs of
        None \<Rightarrow> None
      | Some xs \<Rightarrow> (case typed_row r of None \<Rightarrow> None | Some x \<Rightarrow> Some (xs @ [x])))"
  by (induction rs) (auto split: option.splits)

lemma data_frame_add_mark:
  assumes "data_frame (fetch_all db) = Some df" and "auto_id \<notin> doc_id ` set db"
  shows "data_frame (fetch_all (add_mark auto_id nm sid subj m ds db)) =
           Some (df @ [\<lparr>rec_id = auto_id, name = nm, student_id = sid, subject = subj,
                        marks = m, date = ds\<rparr>])"
proof -
  have "typed_row (row_of \<lparr>doc_id = auto_id, doc_data =
      [''name'' \<mapsto> PStr nm, ''student_id'' \<mapsto> PStr sid, ''subject'' \<mapsto> PStr subj,
       ''marks'' \<mapsto> PInt m, ''date'' \<mapsto> PStr ds]\<rparr>) =
      Some \<lparr>rec_id = auto_id, name = nm, student_id = sid, subject = subj, marks = m, date = ds\<rparr>"
    by (simp add: typed_row_def row_of_def dict_get_def str_cell_def int_cell_def)
  note tr = this
  have "fetch_all (add_mark auto_id nm sid subj m ds db) =
      fetch_all db @ [row_of \<lparr>doc_id = auto_id, doc_data =
        [''name'' \<mapsto> PStr nm, ''student_id'' \<mapsto> PStr sid, ''subject'' \<mapsto> PStr subj,
         ''marks'' \<mapsto> PInt m, ''date'' \<mapsto> PStr ds]\<rparr>]"
    using assms(2) by (simp add: add_mark_def doc_set_fresh fetch_all_map)
  then show ?thesis
    by (simp only: data_frame_append assms(1) tr option.case)
qed

section \<open>Filters that match nothing\<close>

lemma apply_filters_eq:
  "apply_filters df sf stf =
     filter (\<lambda>r. (sf = ''All'' \<or> subject r = sf) \<and> (stf = ''All'' \<or> name r = stf)) df"
  by (simp add: apply_filters_def Let_def)

text \<open>
  C4. When no row passes the selected filters (for instance a subject that does not occur in
  the data), the filtered frame is empty and the page returns normally with a notice in place
  of the table and charts: the warning that no data is left after filtering, or, when there
  were no records to begin with, the information that there are none yet.
\<close>

theorem no_match_gives_notice:
  assumes "\<not> (\<exists>r \<in> set df. (sf = ''All'' \<or> subject r = sf) \<and> (stf = ''All'' \<or> name r = stf))"
  shows "apply_filters df sf stf = [] \<and>
         dashboard to_datetime df sf stf choice show_chart =
           Inr (Notice (if df = []
                        then Info ''No records yet. Add student marks from the left panel.''
                        else Warning ''No data after applying filters.''))"
proof -
  have "apply_filters df sf stf = []"
    using assms unfolding apply_filters_eq filter_empty_conv by blast
  then show ?thesis
    by (simp add: dashboard_def)
qed

theorem no_match_gives_notice_witness:
  "dashboard to_datetime_iso
     [\<lparr>rec_id = ''a1'', name = ''Alice'', student_id = '''', subject = ''Math'', marks = 80,
       date = ''2024-01-01''\<rparr>]
     ''Physics'' ''All'' Average True
   = Inr (Notice (Warning ''No data after applying filters.''))"
  using no_match_gives_notice
    [of "[\<lparr>rec_id = ''a1'', name = ''Alice'', student_id = '''', subject = ''Math'', marks = 80,
           date = ''2024-01-01''\<rparr>]" "''Physics''" "''All''" to_datetime_iso Average True]
  by simp

section \<open>Start-up without credentials\<close>

text \<open>
  C8. When the environment variable is absent or its value cannot be turned into a credential,
  and no key file exists at \<^verbatim>\<open>firebase_key.json\<close>, start-up shows an error message and
  stops: no credential, and so no store connection, is returned.
\<close>

theorem missing_credentials_halt:
  assumes "\<forall>b64. environ ''FIREBASE_CREDENTIALS'' = Some b64 \<longrightarrow> certificate_of_blob b64 = None"
    and "\<not> path_exists ''firebase_key.json''"
  shows "\<exists>msg. init_firestore environ certificate_of_blob path_exists certificate_of_file
           = Inl (Stopped (Error msg))"
  using assms by (auto simp: init_firestore_def split: option.splits)

theorem missing_credentials_halt_witness:
  "(\<exists>msg. init_firestore Map.empty (\<lambda>b. None :: unit option) (\<lambda>p. False) (\<lambda>p. Some ())
      = Inl (Stopped (Error msg))) \<and>
   (\<exists>msg. init_firestore [''FIREBASE_CREDENTIALS'' \<mapsto> ''not base64''] (\<lambda>b. None :: unit option)
        (\<lambda>p. False) (\<lambda>p. Some ())
      = Inl (Stopped (Error msg)))"
  using missing_credentials_halt [of Map.empty "\<lambda>b. None :: unit option" "\<lambda>p. False" "\<lambda>p. Some ()"]
    missing_credentials_halt [of "[''FIREBASE_CREDENTIALS'' \<mapsto> ''not base64'']"
      "\<lambda>b. None :: unit option" "\<lambda>p. False" "\<lambda>p. Some ()"]
  by simp

section \<open>When the download is offered\<close>

lemma data_frame_empty_iff: "data_frame rows = Some df \<Longrightarrow> df = [] \<longleftrightarrow> rows = []"
  by (cases rows) (auto split: option.splits)

text \<open>
  C9. The download is offered exactly when the store holds at least one record, and then
  carries the CSV text of the whole frame under the name \<^verbatim>\<open>student_marks.csv\<close> and the type
  \<^verbatim>\<open>text/csv\<close>; for an empty store nothing is exported, not even a header line.
\<close>

theorem download_iff_records:
  assumes "data_frame (fetch_all db) = Some df"
  shows "export df = (if db = [] then None else Some (to_csv df, ''student_marks.csv'', ''text/csv''))"
  using data_frame_empty_iff [OF assms] by (simp add: export_def fetch_all_map)

theorem download_iff_records_witness:
  "export [] = None \<and>
   export [\<lparr>rec_id = ''k1'', name = ''Bob'', student_id = '''', subject = '''', marks = 0, date = ''''\<rparr>]
     = Some (''id,name,student_id,subject,marks,date'' @ [CHR 0x0A] @ ''k1,Bob,,,0,'' @ [CHR 0x0A],
             ''student_marks.csv'', ''text/csv'')"
proof -
  have a: "data_frame (fetch_all ([] :: unit store)) = Some []"
    by (simp add: fetch_all_def)
  have b: "data_frame (fetch_all [\<lparr>doc_id = ''k1'', doc_data = [''name'' \<mapsto> (PStr ''Bob'' :: unit pyval)]\<rparr>])
        = Some [\<lparr>rec_id = ''k1'', name = ''Bob'', student_id = '''', subject = '''', marks = 0, date = ''''\<rparr>]"
    by code_simp
  have c: "to_csv [\<lparr>rec_id = ''k1'', name = ''Bob'', student_id = '''', subject = '''', marks = 0, date = ''''\<rparr>]
      = ''id,name,student_id,subject,marks,date'' @ [CHR 0x0A] @ ''k1,Bob,,,0,'' @ [CHR 0x0A]"
    by code_simp
  show ?thesis
    using download_iff_records [OF a] download_iff_records [OF b] by (simp add: c)
qed

section \<open>Aggregation\<close>












section \<open>The trend line\<close>













section \<open>The exported file read back\<close>

subsection \<open>Integers as text\<close>

lemma digit_char_props:
  assumes "d < 10"
  shows "is_digit (digit_char d)" and "digit_val (digit_char d) = d" and "digit_char d \<noteq> CHR ''-''"
proof -
  have oc: "of_char (digit_char d) = (48 + d :: nat)"
    using assms by (simp add: digit_char_def)
  show "is_digit (digit_char d)"
    using assms by (simp add: is_digit_def less_eq_char_def oc)
  show "digit_val (digit_char d) = d"
    by (simp add: digit_val_def oc)
  have "of_char (digit_char d) \<noteq> (of_char CHR ''-'' :: nat)"
    by (simp add: oc)
  then show "digit_char d \<noteq> CHR ''-''" by metis
qed

lemma digits_val_snoc:
  "digits_val acc (xs @ [c]) =
     (case digits_val acc xs of
        None \<Rightarrow> None
      | Some v \<Rightarrow> if is_digit c then Some (10 * v + digit_val c) else None)"
  by (induction xs arbitrary: acc) simp_all

lemma digits_val_digits_of: "digits_val 0 (digits_of n) = Some n"
proof (induction n rule: digits_of.induct)
  case (1 n)
  show ?case
  proof (cases "n < 10")
    case True
    then show ?thesis
      by (simp add: digits_of.simps [of n] digit_char_props)
  next
    case False
    then have "digits_val 0 (digits_of (n div 10)) = Some (n div 10)"
      using "1.IH" by simp
    moreover have "n mod 10 < 10" by simp
    ultimately show ?thesis
      using False by (simp add: digits_of.simps [of n] digits_val_snoc digit_char_props)
  qed
qed

lemma digits_of_first: "\<exists>c cs. digits_of n = c # cs \<and> c \<noteq> CHR ''-''"
proof (induction n rule: digits_of.induct)
  case (1 n)
  show ?case
  proof (cases "n < 10")
    case True
    then show ?thesis
      by (simp add: digits_of.simps [of n] digit_char_props)
  next
    case False
    then obtain c cs where "digits_of (n div 10) = c # cs" "c \<noteq> CHR ''-''"
      using "1.IH" by blast
    then show ?thesis
      using False by (simp add: digits_of.simps [of n])
  qed
qed

lemma parse_int_str_int: "parse_int (str_int i) = Some i"
proof (cases "i < 0")
  case True
  have "digits_of (nat (- i)) \<noteq> []"
    using digits_of_first [of "nat (- i)"] by auto
  then have "parse_nat (digits_of (nat (- i))) = Some (nat (- i))"
    by (simp only: parse_nat_def digits_val_digits_of if_False)
  then show ?thesis
    using True by (simp add: parse_int_def str_int_def)
next
  case False
  obtain c cs where d: "digits_of (nat i) = c # cs" "c \<noteq> CHR ''-''"
    using digits_of_first by blast
  have "digits_val 0 (c # cs) = Some (nat i)"
    using digits_val_digits_of [of "nat i"] by (simp only: d)
  then have "parse_nat (c # cs) = Some (nat i)"
    by (simp add: parse_nat_def)
  then show ?thesis
    using False d by (simp add: parse_int_def str_int_def)
qed

subsection \<open>Fields, lines and files\<close>

lemma read_plain:
  assumes "\<forall>c \<in> set f. \<not> special c" and "mode \<noteq> Quoted"
  shows "read_rows mode fld row rows (f @ rest) =
           read_rows (if f = [] then mode else Plain) (rev f @ fld) row rows rest"
  using assms
proof (induction f arbitrary: mode fld)
  case Nil
  then show ?case by simp
next
  case (Cons c f)
  then have c: "c \<noteq> CHR 0x22" "c \<noteq> CHR '',''" "c \<noteq> CHR 0x0A"
    by (auto simp: special_def)
  have "read_rows mode fld row rows ((c # f) @ rest) = read_rows Plain (c # fld) row rows (f @ rest)"
    using c Cons.prems(2) by simp
  also have "\<dots> = read_rows (if f = [] then Plain else Plain) (rev f @ c # fld) row rows rest"
    using Cons.prems(1) by (intro Cons.IH) simp_all
  finally show ?case by simp
qed

lemma read_quoted:
  "read_rows Quoted fld row rows (double_quotes f @ rest) = read_rows Quoted (rev f @ fld) row rows rest"
  by (induction f arbitrary: fld) simp_all

lemma read_field_comma:
  "read_rows Field_start [] row rows (csv_field f @ CHR '','' # rest) =
     read_rows Field_start [] (f # row) rows rest"
proof (cases "list_ex special f")
  case True
  then have "csv_field f @ CHR '','' # rest = CHR 0x22 # double_quotes f @ CHR 0x22 # CHR '','' # rest"
    by (simp add: csv_field_def)
  then show ?thesis
    by (simp add: read_quoted)
next
  case False
  then have "\<forall>c \<in> set f. \<not> special c" by (simp add: list_ex_iff)
  from read_plain [OF this, of Field_start "[]" row rows "CHR '','' # rest"] False
  show ?thesis
    by (simp add: csv_field_def)
qed

lemma read_field_newline:
  "read_rows Field_start [] row rows (csv_field f @ CHR 0x0A # rest) =
     read_rows Field_start [] [] (rev (f # row) # rows) rest"
proof (cases "list_ex special f")
  case True
  then have "csv_field f @ CHR 0x0A # rest = CHR 0x22 # double_quotes f @ CHR 0x22 # CHR 0x0A # rest"
    by (simp add: csv_field_def)
  then show ?thesis
    by (simp add: read_quoted)
next
  case False
  then have "\<forall>c \<in> set f. \<not> special c" by (simp add: list_ex_iff)
  from read_plain [OF this, of Field_start "[]" row rows "CHR 0x0A # rest"] False
  show ?thesis
    by (simp add: csv_field_def)
qed

lemma read_line:
  assumes "vals \<noteq> []"
  shows "read_rows Field_start [] row rows (csv_line vals @ rest) =
           read_rows Field_start [] [] (rev (rev vals @ row) # rows) rest"
  using assms
proof (induction vals arbitrary: row)
  case Nil
  then show ?case by simp
next
  case (Cons v vals)
  show ?case
  proof (cases vals)
    case Nil
    then show ?thesis
      by (simp add: csv_line_def read_field_newline)
  next
    case (Cons w ws)
    then have "csv_line (v # vals) @ rest = csv_field v @ CHR '','' # (csv_line vals @ rest)"
      by (simp add: csv_line_def)
    then show ?thesis
      using Cons.IH [of "v # row"] Cons by (simp add: read_field_comma)
  qed
qed

lemma read_lines:
  assumes "\<forall>l \<in> set ls. l \<noteq> []"
  shows "read_rows Field_start [] [] rows (concat (map csv_line ls)) = rev rows @ ls"
  using assms
proof (induction ls arbitrary: rows)
  case Nil
  then show ?case by simp
next
  case (Cons l ls)
  then have "read_rows Field_start [] [] rows (concat (map csv_line (l # ls))) =
      read_rows Field_start [] [] (l # rows) (concat (map csv_line ls))"
    using read_line [of l "[]" rows "concat (map csv_line ls)"] by simp
  then show ?case using Cons by simp
qed

lemma records_of_rows_cells: "records_of_rows (map cells df) = Some df"
  by (induction df) (simp_all add: cells_def parse_int_str_int)

lemma read_csv_to_csv:
  assumes "df \<noteq> []"
  shows "read_csv (to_csv df) = Some df"
proof -
  have "\<forall>l \<in> set (columns # map cells df). l \<noteq> []"
    by (auto simp: columns_def cells_def)
  then have "read_rows Field_start [] [] [] (concat (map csv_line (columns # map cells df))) =
      rev [] @ (columns # map cells df)"
    by (rule read_lines)
  then show ?thesis
    using assms by (simp add: read_csv_def to_csv_def frame_columns_def records_of_rows_cells)
qed

text \<open>
  C6. Whenever the download is offered, its text starts with the header line
  \<^verbatim>\<open>id,name,student_id,subject,marks,date\<close>, and reading it back as comma-separated values
  gives the frame that was exported: the same records in the same order, equal field for
  field.
\<close>

theorem csv_round_trip:
  assumes "export df = Some (csv, file_name, mime)"
  shows "read_csv csv = Some df \<and>
         (\<exists>body. csv = ''id,name,student_id,subject,marks,date'' @ [CHR 0x0A] @ body)"
proof -
  have ne: "df \<noteq> []" and csv: "csv = to_csv df"
    using assms by (auto simp: export_def split: if_splits)
  have "read_csv csv = Some df"
    using ne csv by (simp add: read_csv_to_csv)
  moreover have "csv_line columns = ''id,name,student_id,subject,marks,date'' @ [CHR 0x0A]"
    by code_simp
  then have "\<exists>body. csv = ''id,name,student_id,subject,marks,date'' @ [CHR 0x0A] @ body"
    using ne csv by (simp add: to_csv_def frame_columns_def)
  ultimately show ?thesis by blast
qed

theorem csv_round_trip_witness:
  "export awkward_records = Some (to_csv awkward_records, ''student_marks.csv'', ''text/csv'') \<and>
   read_csv (to_csv awkward_records) = Some awkward_records"
proof -
  have e: "export awkward_records = Some (to_csv awkward_records, ''student_marks.csv'', ''text/csv'')"
    by (simp add: export_def awkward_records_def)
  from csv_round_trip [OF e] e show ?thesis by blast
qed

end
